theory Spec2Isabelle
  imports Main
begin

section \<open>Device-id validation (\<^verbatim>\<open>validate_device_id\<close>)\<close>

text \<open>
  A Python \<^verbatim>\<open>str\<close> is modelled as a \<^typ>\<open>string\<close>; the character with code \<open>n\<close>
  stands for the code point \<open>n\<close>, so the model covers the strings whose code points are
  below 256 and \<^const>\<open>length\<close> is Python's \<^verbatim>\<open>len\<close>.

  \<^verbatim>\<open>validate_device_id\<close> decides validity with \<^verbatim>\<open>int(device_id, 16)\<close>. That builtin
  is modelled after CPython: a non-ASCII string first has its Unicode white space turned
  into blanks and every other non-ASCII character into \<^verbatim>\<open>?\<close>; then leading white space,
  one optional sign, one optional \<^verbatim>\<open>0x\<close>/\<^verbatim>\<open>0X\<close> prefix (with one optional underscore
  after it), the digits with single underscores between them, and trailing white space
  are read; anything left over is a \<^verbatim>\<open>ValueError\<close>.
\<close>

datatype py_error = ValueError

definition Py_ISSPACE :: "char \<Rightarrow> bool" where
  "Py_ISSPACE c = (c = CHR 0x09 \<or> c = CHR 0x0A \<or> c = CHR 0x0B \<or> c = CHR 0x0C
                   \<or> c = CHR 0x0D \<or> c = CHR '' '')"

text \<open>The white space of Unicode among the code points 127 to 255: NEL and NBSP.\<close>

definition Py_UNICODE_ISSPACE :: "char \<Rightarrow> bool" where
  "Py_UNICODE_ISSPACE c = (c = CHR 0x85 \<or> c = CHR 0xA0)"

definition is_ascii :: "char \<Rightarrow> bool" where
  "is_ascii c = (\<not> digit7 c)"

text \<open>No code point from 127 to 255 is a decimal digit, so all but the two spaces become \<^verbatim>\<open>?\<close>.\<close>

definition transform_space_to_ascii :: "string \<Rightarrow> string" where
  "transform_space_to_ascii s =
     (if list_all is_ascii s then s
      else map (\<lambda>c. if is_ascii c \<and> c \<noteq> CHR 0x7F then c
                     else if Py_UNICODE_ISSPACE c then CHR '' '' else CHR ''?'') s)"

text \<open>CPython's digit table: 37 marks a character that is no digit in any base.\<close>

definition PyLong_DigitValue :: "char \<Rightarrow> nat" where
  "PyLong_DigitValue c =
     (let n = of_char c :: nat
      in if 48 \<le> n \<and> n \<le> 57 then n - 48
         else if 97 \<le> n \<and> n \<le> 122 then n - 87
         else if 65 \<le> n \<and> n \<le> 90 then n - 55
         else 37)"

definition is_hex_digit :: "char \<Rightarrow> bool" where
  "is_hex_digit c = (PyLong_DigitValue c < 16)"

text \<open>The specification's alphabet of a device id, to compare the validator with.\<close>

definition spec_hex_char :: "char \<Rightarrow> bool" where
  "spec_hex_char c = (c \<in> set ''0123456789abcdefABCDEF'')"

definition strip_sign :: "string \<Rightarrow> int \<times> string" where
  "strip_sign s =
     (case s of
        [] \<Rightarrow> (1, s)
      | c # r \<Rightarrow> if c = CHR ''+'' then (1, r) else if c = CHR ''-'' then (- 1, r) else (1, s))"

definition strip_prefix16 :: "string \<Rightarrow> string" where
  "strip_prefix16 s =
     (case s of
        c0 # c1 # r \<Rightarrow>
          if c0 = CHR ''0'' \<and> (c1 = CHR ''x'' \<or> c1 = CHR ''X'')
          then (case r of [] \<Rightarrow> r | u # r' \<Rightarrow> if u = CHR ''_'' then r' else r)
          else s
      | _ \<Rightarrow> s)"

text \<open>
  The digit scan: \<open>prev\<close> is the character read before. It returns the digits read and the
  rest of the input, or \<open>None\<close> at a doubled or trailing underscore.
\<close>

fun scan_digits :: "char \<Rightarrow> string \<Rightarrow> (string \<times> string) option" where
  "scan_digits prev [] = (if prev = CHR ''_'' then None else Some ([], []))"
| "scan_digits prev (c # cs) =
     (if c = CHR ''_'' then (if prev = CHR ''_'' then None else scan_digits c cs)
      else if is_hex_digit c then
        (case scan_digits c cs of None \<Rightarrow> None | Some (ds, rest) \<Rightarrow> Some (c # ds, rest))
      else if prev = CHR ''_'' then None
      else Some ([], c # cs))"

definition hex_value :: "string \<Rightarrow> int" where
  "hex_value ds = foldl (\<lambda>a c. 16 * a + int (PyLong_DigitValue c)) 0 ds"

definition py_int_base16 :: "string \<Rightarrow> py_error + int" where
  "py_int_base16 s =
     (let s1 = dropWhile Py_ISSPACE (transform_space_to_ascii s);
          (sign, s2) = strip_sign s1;
          s3 = strip_prefix16 s2
      in if s3 \<noteq> [] \<and> hd s3 = CHR ''_'' then Inl ValueError
         else (case scan_digits (CHR 0x00) s3 of
                 None \<Rightarrow> Inl ValueError
               | Some (ds, rest) \<Rightarrow>
                   if ds = [] then Inl ValueError
                   else if dropWhile Py_ISSPACE rest \<noteq> [] then Inl ValueError
                   else Inr (sign * hex_value ds)))"

definition validate_device_id :: "string \<Rightarrow> bool" where
  "validate_device_id device_id =
     (if device_id = [] \<or> length device_id \<noteq> 8 then False
      else (case py_int_base16 device_id of Inl ValueError \<Rightarrow> False | Inr _ \<Rightarrow> True))"


section \<open>Settings and the admin client (\<^verbatim>\<open>supabase_client.py\<close>)\<close>

text \<open>
  A Python exception is its class name and its text (\<^verbatim>\<open>str(e)\<close>). FastAPI's
  \<^verbatim>\<open>HTTPException\<close> is kept apart, since \<^verbatim>\<open>generate_pairing_token\<close> treats it apart.
\<close>

datatype exn = Exn (exn_type: string) (exn_text: string)

datatype raised = HTTPException (status_code: nat) (detail: string) | Uncaught exn

record settings =
  AUTH_MODE :: string
  SUPABASE_URL :: string
  SUPABASE_ANON_KEY :: string
  SUPABASE_SERVICE_ROLE_KEY :: string

definition check_supabase_config :: "settings \<Rightarrow> bool" where
  "check_supabase_config st =
     (AUTH_MODE st = ''supabase'' \<and> SUPABASE_URL st \<noteq> [] \<and> SUPABASE_ANON_KEY st \<noteq> [])"

text \<open>
  The client object carries nothing the pairing flow depends on, so a client that was
  obtained is \<open>()\<close>; the library's \<^verbatim>\<open>create_client\<close> is taken to return.
\<close>

definition get_supabase_admin_client :: "settings \<Rightarrow> exn + unit" where
  "get_supabase_admin_client st =
     (if SUPABASE_SERVICE_ROLE_KEY st = [] then
        Inl (Exn ''RuntimeError''
          (''Supabase service role key is not configured. '' @
           ''Set SUPABASE_SERVICE_ROLE_KEY environment variable.''))
      else if \<not> check_supabase_config st then
        Inl (Exn ''RuntimeError''
          (''Supabase is not configured. Set AUTH_MODE=supabase and '' @
           ''provide SUPABASE_URL environment variable.''))
      else Inr ())"

section \<open>The record store\<close>

text \<open>
  The store is the external database, reached through the client. It is modelled by the
  two tables the pairing flow uses:
  \<^item> \<^verbatim>\<open>device_pairing_tokens\<close>, a list of rows in the order a query returns them;
  \<^item> \<^verbatim>\<open>devices\<close>, keyed by its primary key \<^verbatim>\<open>id\<close>, with the columns this repository
    reads or writes.
  A nullable column is an \<open>option\<close>. Time stamps are stored as the text the client sent.

  Every \<^verbatim>\<open>.execute()\<close> is one request, and a request may raise: \<open>faults\<close> is the
  outcome of the requests to come, \<open>None\<close> for a request that is served and \<open>Some e\<close>
  for one that raises \<open>e\<close> and leaves the tables alone. Past the end of \<open>faults\<close> every
  request is served.
\<close>

record pairing_token_row =
  device_id :: string
  token :: string
  expires_at :: string
  claimed_by :: "string option"
  claimed_at :: "string option"

record device_row =
  user_id :: "string option"
  name :: string
  api_key :: "string option"

record store =
  device_pairing_tokens :: "pairing_token_row list"
  devices :: "string \<rightharpoonup> device_row"
  faults :: "exn option list"

type_synonym 'a outcome = "(exn + 'a) \<times> store"

definition next_fault :: "store \<Rightarrow> exn option" where
  "next_fault s = (case faults s of Some e # fs \<Rightarrow> Some e | _ \<Rightarrow> None)"

definition pop :: "store \<Rightarrow> store" where
  "pop s = s\<lparr>faults := tl (faults s)\<rparr>"

definition execute :: "(store \<Rightarrow> 'a \<times> store) \<Rightarrow> store \<Rightarrow> 'a outcome" where
  "execute query s =
     (case next_fault s of
        Some e \<Rightarrow> (Inl e, pop s)
      | None \<Rightarrow> (case query (pop s) of (a, s') \<Rightarrow> (Inr a, s')))"

text \<open>The next \<open>n\<close> requests are served.\<close>

definition served :: "nat \<Rightarrow> store \<Rightarrow> bool" where
  "served n s = list_all (\<lambda>f. f = None) (take n (faults s))"

text \<open>Both tables of \<open>s'\<close> are those of \<open>s\<close>.\<close>

definition same_tables :: "store \<Rightarrow> store \<Rightarrow> bool" where
  "same_tables s s' =
     (device_pairing_tokens s' = device_pairing_tokens s \<and> devices s' = devices s)"

text \<open>Sequencing inside a \<^verbatim>\<open>try\<close> block: the first exception ends the block.\<close>

definition and_then :: "'a outcome \<Rightarrow> ('a \<Rightarrow> store \<Rightarrow> 'b outcome) \<Rightarrow> 'b outcome" where
  "and_then m f = (case m of (Inl e, s) \<Rightarrow> (Inl e, s) | (Inr a, s) \<Rightarrow> f a s)"

definition lift :: "exn + 'a \<Rightarrow> store \<Rightarrow> 'a outcome" where
  "lift r s = (r, s)"

text \<open>\<^verbatim>\<open>select("*").eq("token", t).is_("claimed_by", "null")\<close>\<close>

definition unclaimed_rows :: "string \<Rightarrow> store \<Rightarrow> pairing_token_row list" where
  "unclaimed_rows t s =
     filter (\<lambda>r. token r = t \<and> claimed_by r = None) (device_pairing_tokens s)"

definition select_unclaimed_token :: "string \<Rightarrow> store \<Rightarrow> pairing_token_row list \<times> store" where
  "select_unclaimed_token t s = (unclaimed_rows t s, s)"

text \<open>\<^verbatim>\<open>table("devices").select("user_id").eq("id", d)\<close>\<close>

definition select_device_user_id :: "string \<Rightarrow> store \<Rightarrow> string option list \<times> store" where
  "select_device_user_id d s =
     (case devices s d of None \<Rightarrow> ([], s) | Some r \<Rightarrow> ([user_id r], s))"

text \<open>
  \<^verbatim>\<open>table("devices").upsert({"id": d, "user_id": u, "name": n})\<close>: a new row takes the
  payload and no API key; a row with that primary key has the payload's columns
  overwritten and keeps the others.
\<close>

definition upsert_device :: "string \<Rightarrow> string \<Rightarrow> string \<Rightarrow> store \<Rightarrow> unit \<times> store" where
  "upsert_device d u n s =
     ((), s\<lparr>devices := (devices s)(d \<mapsto>
        (case devices s d of
           None \<Rightarrow> \<lparr>user_id = Some u, name = n, api_key = None\<rparr>
         | Some r \<Rightarrow> r\<lparr>user_id := Some u, name := n\<rparr>))\<rparr>)"

text \<open>\<^verbatim>\<open>update({"claimed_by": u, "claimed_at": at}).eq("token", t)\<close>\<close>

definition update_claimed :: "string \<Rightarrow> string \<Rightarrow> string \<Rightarrow> store \<Rightarrow> unit \<times> store" where
  "update_claimed t u at s =
     ((), s\<lparr>device_pairing_tokens :=
        map (\<lambda>r. if token r = t then r\<lparr>claimed_by := Some u, claimed_at := Some at\<rparr> else r)
          (device_pairing_tokens s)\<rparr>)"

text \<open>\<^verbatim>\<open>delete().eq("device_id", d)\<close>\<close>

definition delete_tokens_of_device :: "string \<Rightarrow> store \<Rightarrow> unit \<times> store" where
  "delete_tokens_of_device d s =
     ((), s\<lparr>device_pairing_tokens := filter (\<lambda>r. device_id r \<noteq> d) (device_pairing_tokens s)\<rparr>)"

text \<open>
  \<^verbatim>\<open>insert({"device_id": d, "token": t, "expires_at": e})\<close>: the new row is unclaimed; the
  response holds the inserted row.
\<close>

definition insert_token :: "string \<Rightarrow> string \<Rightarrow> string \<Rightarrow> store \<Rightarrow> pairing_token_row list \<times> store" where
  "insert_token d t e s =
     (let row = \<lparr>device_id = d, token = t, expires_at = e, claimed_by = None, claimed_at = None\<rparr>
      in ([row], s\<lparr>device_pairing_tokens := device_pairing_tokens s @ [row]\<rparr>))"

section \<open>Time\<close>

text \<open>
  A \<^verbatim>\<open>datetime\<close> is a number of microseconds, with a time zone (aware) or without
  (naive). \<^verbatim>\<open>datetime.now(timezone.utc)\<close> is aware; its readings are arguments of the
  functions below. The standard library's \<^verbatim>\<open>fromisoformat\<close> and \<^verbatim>\<open>isoformat\<close> are
  arguments too. Comparing an aware with a naive \<^verbatim>\<open>datetime\<close> raises.
\<close>

datatype datetime = Aware int | Naive int

definition now_gt :: "int \<Rightarrow> datetime \<Rightarrow> exn + bool" where
  "now_gt now d =
     (case d of
        Aware e \<Rightarrow> Inr (now > e)
      | Naive _ \<Rightarrow> Inl (Exn ''TypeError'' ''can't compare offset-naive and offset-aware datetimes''))"

definition PAIRING_TOKEN_VALIDITY_MINUTES :: int where
  "PAIRING_TOKEN_VALIDITY_MINUTES = 30"

definition timedelta_minutes :: "int \<Rightarrow> int" where
  "timedelta_minutes m = m * 60 * 1000000"

text \<open>\<^verbatim>\<open>if s.endswith("Z"): s = s[:-1] + "+00:00"\<close>\<close>

definition replace_z :: "string \<Rightarrow> string" where
  "replace_z s = (if s \<noteq> [] \<and> last s = CHR ''Z'' then butlast s @ ''+00:00'' else s)"

section \<open>Claiming a device (\<^verbatim>\<open>claim_device\<close>)\<close>

text \<open>
  \<^verbatim>\<open>ClaimResult\<close> and \<^verbatim>\<open>PairingToken\<close> are the source's classes; their fields carry a
  prefix where the name is a column's name already.
\<close>

record ClaimResult =
  success :: bool
  result_device_id :: "string option"
  message :: string

record PairingToken =
  pt_device_id :: string
  pt_token :: string
  pt_expires_at :: int

text \<open>The body of the \<^verbatim>\<open>try\<close> block: \<open>Inl e\<close> is the exception \<open>e\<close> raised inside it.\<close>

definition claim_device_try ::
  "(string \<Rightarrow> exn + datetime) \<Rightarrow> (int \<Rightarrow> string) \<Rightarrow> int \<Rightarrow> int \<Rightarrow> string \<Rightarrow> string
     \<Rightarrow> store \<Rightarrow> ClaimResult outcome" where
  "claim_device_try fromisoformat isoformat now_check now_claim uid pairing_token s0 =
     and_then (execute (select_unclaimed_token pairing_token) s0) (\<lambda>token_response s1.
       if token_response = [] then
         (Inr \<lparr>success = False, result_device_id = None,
               message = ''Invalid or expired pairing token''\<rparr>, s1)
       else
         let token_data = hd token_response;
             did = device_id token_data;
             expires_at_str = replace_z (expires_at token_data)
         in
         and_then (lift (fromisoformat expires_at_str) s1) (\<lambda>expires s1.
         and_then (lift (now_gt now_check expires) s1) (\<lambda>expired s1.
           if expired then
             (Inr \<lparr>success = False, result_device_id = None,
                   message = ''Pairing token has expired''\<rparr>, s1)
           else
             and_then (execute (select_device_user_id did) s1) (\<lambda>existing_device s2.
               if existing_device \<noteq> [] \<and> hd existing_device \<noteq> Some uid then
                 (Inr \<lparr>success = False, result_device_id = None,
                       message = ''Device is already claimed by another user''\<rparr>, s2)
               else
                 and_then (execute (upsert_device did uid (''Tronbyt-'' @ take 4 did)) s2) (\<lambda>_ s3.
                 and_then (execute (update_claimed pairing_token uid (isoformat now_claim)) s3) (\<lambda>_ s4.
                   (Inr \<lparr>success = True, result_device_id = Some did,
                         message = ''Device claimed successfully''\<rparr>, s4)))))))"

text \<open>
  The client is obtained before the \<^verbatim>\<open>try\<close>, so its \<^verbatim>\<open>RuntimeError\<close> leaves the
  function; every exception of the block becomes a result.
\<close>

definition claim_device ::
  "settings \<Rightarrow> (string \<Rightarrow> exn + datetime) \<Rightarrow> (int \<Rightarrow> string) \<Rightarrow> int \<Rightarrow> int \<Rightarrow> string \<Rightarrow> string
     \<Rightarrow> store \<Rightarrow> (exn + ClaimResult) \<times> store" where
  "claim_device st fromisoformat isoformat now_check now_claim uid pairing_token s =
     (case get_supabase_admin_client st of
        Inl e \<Rightarrow> (Inl e, s)
      | Inr supabase \<Rightarrow>
          (case claim_device_try fromisoformat isoformat now_check now_claim uid pairing_token s of
             (Inr result, s') \<Rightarrow> (Inr result, s')
           | (Inl e, s') \<Rightarrow>
               (Inr \<lparr>success = False, result_device_id = None,
                     message = ''Failed to claim device: '' @ exn_text e\<rparr>, s')))"

section \<open>Issuing a pairing token (\<^verbatim>\<open>generate_pairing_token\<close>)\<close>

text \<open>\<open>new_token\<close> is what \<^verbatim>\<open>secrets.token_urlsafe(32)\<close> returns.\<close>

definition generate_pairing_token_try ::
  "(int \<Rightarrow> string) \<Rightarrow> int \<Rightarrow> string \<Rightarrow> string \<Rightarrow> store \<Rightarrow> (raised + PairingToken) outcome" where
  "generate_pairing_token_try isoformat expires new_token did s0 =
     and_then (execute (delete_tokens_of_device did) s0) (\<lambda>_ s1.
     and_then (execute (insert_token did new_token (isoformat expires)) s1) (\<lambda>response s2.
       if response = [] then
         (Inr (Inl (HTTPException 500 ''Failed to create pairing token'')), s2)
       else
         (Inr (Inr \<lparr>pt_device_id = did, pt_token = new_token, pt_expires_at = expires\<rparr>), s2)))"

definition generate_pairing_token ::
  "settings \<Rightarrow> (int \<Rightarrow> string) \<Rightarrow> int \<Rightarrow> string \<Rightarrow> string \<Rightarrow> store
     \<Rightarrow> (raised + PairingToken) \<times> store" where
  "generate_pairing_token st isoformat now new_token did s =
     (if \<not> validate_device_id did then
        (Inl (HTTPException 400 ''Invalid device ID format. Must be 8 hex characters.''), s)
      else
        (case get_supabase_admin_client st of
           Inl e \<Rightarrow> (Inl (Uncaught e), s)
         | Inr supabase \<Rightarrow>
             (let expires = now + timedelta_minutes PAIRING_TOKEN_VALIDITY_MINUTES in
              case generate_pairing_token_try isoformat expires new_token did s of
                (Inr r, s') \<Rightarrow> (r, s')
              | (Inl e, s') \<Rightarrow> (Inl (HTTPException 500 ''Failed to generate pairing token''), s'))))"

section \<open>Concrete inputs\<close>

text \<open>
  The inputs of the worked examples below: settings under which the admin client is
  obtained, a parser and a printer that know the one expiry time the examples use
  (minute 30 of the epoch), and stores with one pending token for device
  \<^verbatim>\<open>a1b2c3d4\<close>.
\<close>

definition demo_settings :: settings where
  "demo_settings =
     \<lparr>AUTH_MODE = ''supabase'', SUPABASE_URL = ''https://demo.supabase.co'',
      SUPABASE_ANON_KEY = ''anon-key'', SUPABASE_SERVICE_ROLE_KEY = ''service-key''\<rparr>"

definition demo_fromisoformat :: "string \<Rightarrow> exn + datetime" where
  "demo_fromisoformat str =
     (if str = ''1970-01-01T00:30:00+00:00'' then Inr (Aware 1800000000)
      else Inl (Exn ''ValueError'' (''Invalid isoformat string: '' @ str)))"

definition demo_isoformat :: "int \<Rightarrow> string" where
  "demo_isoformat t =
     (if t = 1800000000 then ''1970-01-01T00:30:00+00:00'' else ''1970-01-01T00:01:00+00:00'')"

definition pending_row :: pairing_token_row where
  "pending_row =
     \<lparr>device_id = ''a1b2c3d4'', token = ''tok-1'', expires_at = ''1970-01-01T00:30:00Z'',
      claimed_by = None, claimed_at = None\<rparr>"

definition store_pending :: store where
  "store_pending =
     \<lparr>device_pairing_tokens = [pending_row], devices = Map.empty, faults = []\<rparr>"

text \<open>The device exists, belongs to \<open>owner\<close> and was renamed by its owner.\<close>

definition store_owned :: "string \<Rightarrow> store" where
  "store_owned owner =
     \<lparr>device_pairing_tokens = [pending_row],
      devices = [''a1b2c3d4'' \<mapsto> \<lparr>user_id = Some owner, name = ''Kitchen'', api_key = Some ''key-1''\<rparr>],
      faults = []\<rparr>"

text \<open>The token of device \<^verbatim>\<open>a1b2c3d4\<close> was claimed by \<^verbatim>\<open>u1\<close> before.\<close>

definition store_claimed :: store where
  "store_claimed =
     \<lparr>device_pairing_tokens =
        [pending_row\<lparr>claimed_by := Some ''u1'', claimed_at := Some ''1970-01-01T00:01:00+00:00''\<rparr>],
      devices = [''a1b2c3d4'' \<mapsto> \<lparr>user_id = Some ''u1'', name = ''Tronbyt-a1b2'', api_key = None\<rparr>],
      faults = []\<rparr>"

text \<open>The store cannot be reached: the next request raises.\<close>

definition store_unreachable :: store where
  "store_unreachable =
     store_pending\<lparr>faults := [Some (Exn ''ConnectError'' ''connection refused'')]\<rparr>"

text \<open>No token was ever issued.\<close>

definition store_empty :: store where
  "store_empty = \<lparr>device_pairing_tokens = [], devices = Map.empty, faults = []\<rparr>"



section \<open>The validator accepts more than eight hexadecimal digits\<close>

lemma spec_hex_char_digit: "spec_hex_char c \<Longrightarrow> is_hex_digit c"
  by (auto simp: spec_hex_char_def is_hex_digit_def PyLong_DigitValue_def)

lemma spec_hex_char_plain:
  assumes "spec_hex_char c"
  shows "is_ascii c" and "\<not> Py_ISSPACE c" and "c \<noteq> CHR ''+''" and "c \<noteq> CHR ''-''"
    and "c \<noteq> CHR ''_''" and "c \<noteq> CHR ''x''" and "c \<noteq> CHR ''X''"
  using assms by (auto simp: spec_hex_char_def is_ascii_def Py_ISSPACE_def)

lemma scan_digits_hex:
  "list_all spec_hex_char s \<Longrightarrow> prev \<noteq> CHR ''_'' \<Longrightarrow> scan_digits prev s = Some (s, [])"
proof (induction s arbitrary: prev)
  case Nil
  then show ?case by simp
next
  case (Cons c cs)
  then have c: "spec_hex_char c" and cs: "list_all spec_hex_char cs" by simp_all
  have "scan_digits c cs = Some (cs, [])"
    using Cons.IH [OF cs] spec_hex_char_plain(5) [OF c] by simp
  then show ?case
    using spec_hex_char_plain(5) [OF c] spec_hex_char_digit [OF c] by simp
qed

lemma py_int_base16_hex:
  assumes "list_all spec_hex_char s" and "s \<noteq> []"
  shows "py_int_base16 s = Inr (hex_value s)"
proof -
  obtain c cs where s: "s = c # cs"
    using assms(2) by (cases s) auto
  have c: "spec_hex_char c" and cs: "list_all spec_hex_char cs"
    using assms(1) s by simp_all
  have ascii: "list_all is_ascii s"
    using assms(1) by (induction s) (auto dest: spec_hex_char_plain(1))
  have t: "transform_space_to_ascii s = s"
    using ascii by (simp add: transform_space_to_ascii_def)
  have d: "dropWhile Py_ISSPACE s = s"
    using spec_hex_char_plain(2) [OF c] s by simp
  have sg: "strip_sign s = (1, s)"
    using spec_hex_char_plain(3,4) [OF c] s by (simp add: strip_sign_def)
  have px: "strip_prefix16 s = s"
  proof (cases cs)
    case Nil
    then show ?thesis using s by (simp add: strip_prefix16_def)
  next
    case (Cons c1 r)
    then have "spec_hex_char c1" using cs by simp
    then show ?thesis
      using s Cons spec_hex_char_plain(6,7) by (simp add: strip_prefix16_def)
  qed
  have u: "hd s \<noteq> CHR ''_''"
    using spec_hex_char_plain(5) [OF c] s by simp
  have sc: "scan_digits (CHR 0x00) s = Some (s, [])"
    using scan_digits_hex [OF assms(1)] by simp
  show ?thesis
    using assms(2) by (simp add: py_int_base16_def t d sg px u sc)
qed

text \<open>Half of the specification's equivalence holds: eight hexadecimal digits are valid,
  and a valid string has length eight.\<close>

lemma validate_device_id_hex8:
  "length s = 8 \<Longrightarrow> list_all spec_hex_char s \<Longrightarrow> validate_device_id s"
  using py_int_base16_hex [of s] by (auto simp: validate_device_id_def)

lemma validate_device_id_length: "validate_device_id s \<Longrightarrow> length s = 8"
  by (simp add: validate_device_id_def split: if_splits)

text \<open>
  C2. The claim: \<^verbatim>\<open>validate_device_id(s)\<close> is true if and only if \<open>s\<close> has length 8 and
  every character is a hexadecimal digit; in particular an 8-character string with a
  \<^verbatim>\<open>-\<close>, a space, a \<^verbatim>\<open>_\<close>, an \<^verbatim>\<open>x\<close> or a \<^verbatim>\<open>+\<close> is invalid. The code accepts what
  \<^verbatim>\<open>int(s, 16)\<close> accepts: a sign, surrounding white space, an underscore between digits
  and the \<^verbatim>\<open>0x\<close> prefix all pass, though none of them is a hexadecimal digit.
\<close>

theorem validate_device_id_accepts_non_hex:
  "validate_device_id ''+1234567'' \<and> \<not> spec_hex_char (CHR ''+'')
   \<and> validate_device_id ''-1234567'' \<and> \<not> spec_hex_char (CHR ''-'')
   \<and> validate_device_id '' 1234567'' \<and> \<not> spec_hex_char (CHR '' '')
   \<and> validate_device_id ''1_234567'' \<and> \<not> spec_hex_char (CHR ''_'')
   \<and> validate_device_id ''0x123456'' \<and> \<not> spec_hex_char (CHR ''x'')"
  by (simp add: validate_device_id_def py_int_base16_def transform_space_to_ascii_def
        is_ascii_def Py_ISSPACE_def strip_sign_def strip_prefix16_def is_hex_digit_def
        PyLong_DigitValue_def spec_hex_char_def)

section \<open>Requests and their outcomes\<close>

lemma pop_tables [simp]:
  "device_pairing_tokens (pop s) = device_pairing_tokens s"
  "devices (pop s) = devices s"
  "unclaimed_rows t (pop s) = unclaimed_rows t s"
  by (simp_all add: pop_def unclaimed_rows_def)

lemma faults_pop_pow: "faults ((pop ^^ k) s) = drop k (faults s)"
  by (induction k) (simp_all add: pop_def drop_Suc tl_drop)

lemma served_next_fault:
  assumes "served n s" and "k < n"
  shows "next_fault ((pop ^^ k) s) = None"
proof (cases "k < length (faults s)")
  case True
  then have "faults s ! k \<in> set (take n (faults s))"
    using assms(2) by (metis in_set_conv_nth length_take min_less_iff_conj nth_take)
  then have "faults s ! k = None"
    using assms(1) by (simp add: served_def list_all_iff)
  then have "drop k (faults s) = None # drop (Suc k) (faults s)"
    using True by (metis Cons_nth_drop_Suc)
  then show ?thesis
    by (simp add: next_fault_def faults_pop_pow)
next
  case False
  then show ?thesis
    by (simp add: next_fault_def faults_pop_pow)
qed

lemma served_1: "served (Suc n) s \<Longrightarrow> next_fault s = None"
  using served_next_fault [of "Suc n" s 0] by simp

lemma served_2: "served (Suc (Suc n)) s \<Longrightarrow> next_fault (pop s) = None"
  using served_next_fault [of "Suc (Suc n)" s 1] by simp

lemma served_3: "served (Suc (Suc (Suc n))) s \<Longrightarrow> next_fault (pop (pop s)) = None"
  using served_next_fault [of "Suc (Suc (Suc n))" s 2] by (simp add: numeral_2_eq_2)

lemma served_4: "served (Suc (Suc (Suc (Suc n)))) s \<Longrightarrow> next_fault (pop (pop (pop s))) = None"
  using served_next_fault [of "Suc (Suc (Suc (Suc n)))" s 3] by (simp add: numeral_3_eq_3)

lemma next_fault_update [simp]:
  "next_fault (s\<lparr>devices := dv\<rparr>) = next_fault s"
  "next_fault (s\<lparr>device_pairing_tokens := tk\<rparr>) = next_fault s"
  by (simp_all add: next_fault_def)

lemma pop_update [simp]:
  "pop (s\<lparr>devices := dv\<rparr>) = (pop s)\<lparr>devices := dv\<rparr>"
  "pop (s\<lparr>device_pairing_tokens := tk\<rparr>) = (pop s)\<lparr>device_pairing_tokens := tk\<rparr>"
  by (simp_all add: pop_def)

text \<open>A served request runs its query; a request that raises leaves the tables alone.\<close>

lemma execute_served:
  "next_fault s = None \<Longrightarrow> execute q s = (Inr (fst (q (pop s))), snd (q (pop s)))"
  by (simp add: execute_def split: prod.splits)

lemma execute_raises:
  "next_fault s = Some e \<Longrightarrow> execute q s = (Inl e, pop s)"
  by (simp add: execute_def)

text \<open>The definitions a proof about \<^const>\<open>claim_device\<close> unfolds.\<close>

lemmas claim_defs = claim_device_def claim_device_try_def and_then_def lift_def Let_def
  select_unclaimed_token_def select_device_user_id_def upsert_device_def update_claimed_def
  now_gt_def

section \<open>The paths of \<^const>\<open>claim_device\<close>\<close>

lemma claim_device_not_found:
  assumes "get_supabase_admin_client st = Inr ()" and "served 1 s"
    and "unclaimed_rows t s = []"
  shows "claim_device st parse fmt nc nm u t s =
           (Inr \<lparr>success = False, result_device_id = None,
                 message = ''Invalid or expired pairing token''\<rparr>, pop s)"
  using assms served_1 [of 0 s] by (simp add: claim_defs execute_served)

lemma claim_device_expired:
  assumes "get_supabase_admin_client st = Inr ()" and "served 1 s"
    and "unclaimed_rows t s = row # rest"
    and "parse (replace_z (expires_at row)) = Inr (Aware e)" and "e < nc"
  shows "claim_device st parse fmt nc nm u t s =
           (Inr \<lparr>success = False, result_device_id = None,
                 message = ''Pairing token has expired''\<rparr>, pop s)"
  using assms served_1 [of 0 s] by (simp add: claim_defs execute_served)

lemma claim_device_conflict:
  assumes "get_supabase_admin_client st = Inr ()" and "served 2 s"
    and "unclaimed_rows t s = row # rest"
    and "parse (replace_z (expires_at row)) = Inr (Aware e)" and "nc \<le> e"
    and "devices s (device_id row) = Some dev" and "user_id dev \<noteq> Some u"
  shows "claim_device st parse fmt nc nm u t s =
           (Inr \<lparr>success = False, result_device_id = None,
                 message = ''Device is already claimed by another user''\<rparr>, pop (pop s))"
  using assms served_1 [of 1 s] served_2 [of 0 s]
  by (simp add: claim_defs execute_served numeral_2_eq_2)

lemma claim_device_succeeds:
  assumes "get_supabase_admin_client st = Inr ()" and "served 4 s"
    and "unclaimed_rows t s = row # rest"
    and "parse (replace_z (expires_at row)) = Inr (Aware e)" and "nc \<le> e"
    and "devices s (device_id row) = None
         \<or> (\<exists>dev. devices s (device_id row) = Some dev \<and> user_id dev = Some u)"
  shows "claim_device st parse fmt nc nm u t s =
           (Inr \<lparr>success = True, result_device_id = Some (device_id row),
                 message = ''Device claimed successfully''\<rparr>,
            (pop (pop (pop (pop s))))
              \<lparr>devices := (devices s)(device_id row \<mapsto>
                 (case devices s (device_id row) of
                    None \<Rightarrow> \<lparr>user_id = Some u, name = ''Tronbyt-'' @ take 4 (device_id row),
                             api_key = None\<rparr>
                  | Some r \<Rightarrow> r\<lparr>user_id := Some u,
                               name := ''Tronbyt-'' @ take 4 (device_id row)\<rparr>)),
               device_pairing_tokens :=
                 map (\<lambda>r. if token r = t
                          then r\<lparr>claimed_by := Some u, claimed_at := Some (fmt nm)\<rparr> else r)
                   (device_pairing_tokens s)\<rparr>)"
proof -
  have f: "next_fault s = None" "next_fault (pop s) = None" "next_fault (pop (pop s)) = None"
    "next_fault (pop (pop (pop s))) = None"
    using assms(2) served_1 [of 3 s] served_2 [of 2 s] served_3 [of 1 s] served_4 [of 0 s]
    by (simp_all add: eval_nat_numeral)
  show ?thesis
    using assms(1,3,4,5,6) f by (auto simp: claim_defs execute_served)
qed

text \<open>Whatever the path, a device that exists keeps its owner.\<close>

lemma claim_device_owner_kept:
  assumes "devices s d = Some dev"
  shows "\<exists>dev'. devices (snd (claim_device st parse fmt nc nm u t s)) d = Some dev'
           \<and> user_id dev' = user_id dev"
  using assms
  by (auto simp: claim_defs execute_def split: option.splits sum.splits prod.splits if_splits datetime.splits)

text \<open>A result with one of the three rejection messages comes with untouched tables.\<close>

lemma claim_device_rejected_frame:
  assumes "claim_device st parse fmt nc nm u t s = (Inr r, s')"
    and "message r = ''Invalid or expired pairing token'' \<or> message r = ''Pairing token has expired''
         \<or> message r = ''Device is already claimed by another user''"
  shows "same_tables s s'"
  using assms
  by (auto simp: claim_defs execute_def same_tables_def split: option.splits sum.splits prod.splits if_splits datetime.splits)

lemma claim_device_rejected_fails:
  assumes "claim_device st parse fmt nc nm u t s = (Inr r, s')"
    and "message r = ''Invalid or expired pairing token'' \<or> message r = ''Pairing token has expired''
         \<or> message r = ''Device is already claimed by another user''"
  shows "\<not> success r"
  using assms
  by (auto simp: claim_defs execute_def split: option.splits sum.splits prod.splits if_splits datetime.splits)



text \<open>With no unclaimed row for the token, the result depends on the client and on the
  first request only.\<close>

lemma claim_device_fst_not_found:
  assumes "unclaimed_rows t s = []"
  shows "fst (claim_device st parse fmt nc nm u t s) =
     (case get_supabase_admin_client st of
        Inl e \<Rightarrow> Inl e
      | Inr _ \<Rightarrow>
          (case next_fault s of
             Some e \<Rightarrow> Inr \<lparr>success = False, result_device_id = None,
                             message = ''Failed to claim device: '' @ exn_text e\<rparr>
           | None \<Rightarrow> Inr \<lparr>success = False, result_device_id = None,
                           message = ''Invalid or expired pairing token''\<rparr>))"
  using assms by (simp add: claim_defs execute_def split: sum.splits option.splits)

lemma unclaimed_rows_unknown:
  "list_all (\<lambda>r. token r \<noteq> t) (device_pairing_tokens s) \<Longrightarrow> unclaimed_rows t s = []"
  by (simp add: unclaimed_rows_def list_all_iff filter_empty_conv)

lemma unclaimed_rows_claimed:
  "list_all (\<lambda>r. token r = t \<longrightarrow> claimed_by r \<noteq> None) (device_pairing_tokens s)
   \<Longrightarrow> unclaimed_rows t s = []"
  by (auto simp: unclaimed_rows_def list_all_iff filter_empty_conv)

text \<open>With the client obtained, the function returns one of five kinds of result.\<close>

lemma claim_device_returns:
  assumes "get_supabase_admin_client st = Inr ()"
  shows "\<exists>r. fst (claim_device st parse fmt nc nm u t s) = Inr r
           \<and> (r = \<lparr>success = False, result_device_id = None,
                     message = ''Invalid or expired pairing token''\<rparr>
              \<or> r = \<lparr>success = False, result_device_id = None,
                       message = ''Pairing token has expired''\<rparr>
              \<or> r = \<lparr>success = False, result_device_id = None,
                       message = ''Device is already claimed by another user''\<rparr>
              \<or> (\<exists>d. r = \<lparr>success = True, result_device_id = Some d,
                            message = ''Device claimed successfully''\<rparr>)
              \<or> (\<exists>e. fst (claim_device_try parse fmt nc nm u t s) = Inl e
                       \<and> r = \<lparr>success = False, result_device_id = None,
                                message = ''Failed to claim device: '' @ exn_text e\<rparr>))"
  using assms
  by (auto simp: claim_defs execute_def split: option.splits sum.splits prod.splits if_splits datetime.splits)

lemma claim_device_request_raises:
  assumes "get_supabase_admin_client st = Inr ()"
    and "k < 4" and "served k s" and "next_fault ((pop ^^ k) s) = Some e"
    and "unclaimed_rows t s = row # rest"
    and "parse (replace_z (expires_at row)) = Inr (Aware x)" and "nc \<le> x"
    and "devices s (device_id row) = None
         \<or> map_option user_id (devices s (device_id row)) = Some (Some u)"
  shows "fst (claim_device st parse fmt nc nm u t s) =
           Inr \<lparr>success = False, result_device_id = None,
                 message = ''Failed to claim device: '' @ exn_text e\<rparr>"
proof -
  consider "k = 0" | "k = 1" | "k = 2" | "k = 3"
    using assms(2) by linarith
  then show ?thesis
  proof cases
    case 1
    then show ?thesis
      using assms by (simp add: claim_defs execute_raises)
  next
    case 2
    then show ?thesis
      using assms served_1 [of 0 s] by (simp add: claim_defs execute_served execute_raises)
  next
    case 3
    then show ?thesis
      using assms served_1 [of 1 s] served_2 [of 0 s]
      by (auto simp: claim_defs execute_served execute_raises numeral_2_eq_2)
  next
    case 4
    then show ?thesis
      using assms served_1 [of 2 s] served_2 [of 1 s] served_3 [of 0 s]
      by (auto simp: claim_defs execute_served execute_raises numeral_3_eq_3 numeral_2_eq_2)
  qed
qed

text \<open>The definitions a proof about \<^const>\<open>generate_pairing_token\<close> unfolds.\<close>

lemmas generate_defs = generate_pairing_token_def generate_pairing_token_try_def and_then_def
  delete_tokens_of_device_def insert_token_def Let_def

text \<open>A claim succeeds for a device only if the device was free or the caller's.\<close>

lemma claim_device_success_owner:
  assumes "fst (claim_device st parse fmt nc nm u t s) = Inr r"
    and "success r" and "result_device_id r = Some d"
  shows "devices s d = None \<or> map_option user_id (devices s d) = Some (Some u)"
  using assms
  by (auto simp: claim_defs execute_def split: option.splits sum.splits prod.splits if_splits datetime.splits)

text \<open>Issuing a token never writes the devices table.\<close>

lemma generate_pairing_token_devices:
  "devices (snd (generate_pairing_token st fmt now new_token d s)) = devices s"
  by (auto simp: generate_defs execute_def split: option.splits sum.splits prod.splits)

text \<open>What a successful issue did: the rows of the device are gone, the new row is last.\<close>

lemma generate_pairing_token_success:
  assumes "fst (generate_pairing_token st fmt now new_token d s) = Inr pt"
  shows "validate_device_id d" and "get_supabase_admin_client st = Inr ()"
    and "pt = \<lparr>pt_device_id = d, pt_token = new_token,
               pt_expires_at = now + timedelta_minutes PAIRING_TOKEN_VALIDITY_MINUTES\<rparr>"
    and "device_pairing_tokens (snd (generate_pairing_token st fmt now new_token d s)) =
           filter (\<lambda>r. device_id r \<noteq> d) (device_pairing_tokens s) @
           [\<lparr>device_id = d, token = new_token,
             expires_at = fmt (now + timedelta_minutes PAIRING_TOKEN_VALIDITY_MINUTES),
             claimed_by = None, claimed_at = None\<rparr>]"
  using assms
  by (auto simp: generate_defs execute_def split: option.splits sum.splits prod.splits if_splits)

section \<open>The concrete inputs, evaluated\<close>

lemmas demo_defs = demo_settings_def demo_fromisoformat_def demo_isoformat_def pending_row_def
  store_pending_def store_owned_def store_claimed_def store_unreachable_def
  get_supabase_admin_client_def check_supabase_config_def served_def unclaimed_rows_def replace_z_def

lemma demo_client: "get_supabase_admin_client demo_settings = Inr ()"
  by (simp add: demo_defs)

lemma demo_served: "served n store_pending" "served n (store_owned owner)" "served n store_claimed"
  by (simp_all add: demo_defs)

lemma demo_rows:
  "unclaimed_rows ''tok-1'' store_pending = [pending_row]"
  "unclaimed_rows ''tok-1'' (store_owned owner) = [pending_row]"
  "unclaimed_rows ''tok-1'' store_claimed = []"
  by (simp_all add: demo_defs)

lemma demo_parse: "demo_fromisoformat (replace_z (expires_at pending_row)) = Inr (Aware 1800000000)"
  by (simp add: demo_defs)

lemma demo_devices:
  "devices store_pending d = None"
  "devices (store_owned owner) (device_id pending_row) =
     Some \<lparr>user_id = Some owner, name = ''Kitchen'', api_key = Some ''key-1''\<rparr>"
  by (simp_all add: demo_defs)

section \<open>Expiry\<close>

text \<open>
  C7. A token record with \<^verbatim>\<open>claimed_by\<close> null whose \<^verbatim>\<open>expires_at\<close> is strictly before
  now is rejected with the message \<^verbatim>\<open>Pairing token has expired\<close>, and the record stays in
  the store, unclaimed and as it was. The record is the one the lookup returns first;
  its \<^verbatim>\<open>expires_at\<close> parses to a time with a zone, and the lookup request is served.
\<close>

theorem claim_device_expired_token:
  assumes "get_supabase_admin_client st = Inr ()" and "served 1 s"
    and "unclaimed_rows t s = row # rest"
    and "parse (replace_z (expires_at row)) = Inr (Aware e)" and "e < nc"
  shows "fst (claim_device st parse fmt nc nm u t s) =
           Inr \<lparr>success = False, result_device_id = None, message = ''Pairing token has expired''\<rparr>
         \<and> same_tables s (snd (claim_device st parse fmt nc nm u t s))
         \<and> row \<in> set (device_pairing_tokens (snd (claim_device st parse fmt nc nm u t s)))
         \<and> claimed_by row = None"
proof -
  have "row \<in> set (unclaimed_rows t s)"
    using assms(3) by simp
  then have row: "row \<in> set (device_pairing_tokens s)" "claimed_by row = None"
    by (simp_all add: unclaimed_rows_def)
  have "claim_device st parse fmt nc nm u t s =
          (Inr \<lparr>success = False, result_device_id = None, message = ''Pairing token has expired''\<rparr>,
           pop s)"
    using assms by (rule claim_device_expired)
  then show ?thesis
    using row by (simp add: same_tables_def)
qed

theorem claim_device_expired_token_witness:
  "fst (claim_device demo_settings demo_fromisoformat demo_isoformat 3600000000 3600000000
          ''u1'' ''tok-1'' store_pending) =
     Inr \<lparr>success = False, result_device_id = None, message = ''Pairing token has expired''\<rparr>
   \<and> pending_row \<in> set (device_pairing_tokens
        (snd (claim_device demo_settings demo_fromisoformat demo_isoformat 3600000000 3600000000
          ''u1'' ''tok-1'' store_pending)))
   \<and> claimed_by pending_row = None"
  using claim_device_expired_token [where st = demo_settings and s = store_pending
      and parse = demo_fromisoformat and fmt = demo_isoformat and t = "''tok-1''"
      and row = pending_row and rest = "[]" and e = 1800000000 and nc = 3600000000
      and nm = 3600000000 and u = "''u1''"]
  by (simp add: demo_client demo_served demo_rows demo_parse)

section \<open>The order of the checks\<close>

text \<open>
  C4. The checks of \<^verbatim>\<open>claim_device\<close> run in a fixed order (token lookup, expiry,
  ownership) and the first that fails decides the result: an empty lookup rejects
  whatever the expiry and the owner are, an expired token rejects whatever the owner is,
  and the ownership conflict rejects only after both. Every result that carries one of
  the three rejection messages is a failure and comes with both tables untouched.
\<close>

theorem claim_device_first_failing_check_wins:
  assumes "get_supabase_admin_client st = Inr ()"
  shows "(served 1 s \<and> unclaimed_rows t s = [] \<longrightarrow>
            fst (claim_device st parse fmt nc nm u t s) =
              Inr \<lparr>success = False, result_device_id = None,
                    message = ''Invalid or expired pairing token''\<rparr>)
       \<and> (served 1 s \<and> unclaimed_rows t s = row # rest
            \<and> parse (replace_z (expires_at row)) = Inr (Aware e) \<and> e < nc \<longrightarrow>
            fst (claim_device st parse fmt nc nm u t s) =
              Inr \<lparr>success = False, result_device_id = None,
                    message = ''Pairing token has expired''\<rparr>)
       \<and> (served 2 s \<and> unclaimed_rows t s = row # rest
            \<and> parse (replace_z (expires_at row)) = Inr (Aware e) \<and> nc \<le> e
            \<and> devices s (device_id row) = Some dev \<and> user_id dev \<noteq> Some u \<longrightarrow>
            fst (claim_device st parse fmt nc nm u t s) =
              Inr \<lparr>success = False, result_device_id = None,
                    message = ''Device is already claimed by another user''\<rparr>)
       \<and> (\<forall>r s'. claim_device st parse fmt nc nm u t s = (Inr r, s')
            \<and> (message r = ''Invalid or expired pairing token''
                 \<or> message r = ''Pairing token has expired''
                 \<or> message r = ''Device is already claimed by another user'')
            \<longrightarrow> \<not> success r \<and> same_tables s s')"
proof (intro conjI impI allI)
  assume "served 1 s \<and> unclaimed_rows t s = []"
  then show "fst (claim_device st parse fmt nc nm u t s) =
      Inr \<lparr>success = False, result_device_id = None, message = ''Invalid or expired pairing token''\<rparr>"
    using claim_device_not_found [OF assms, of s t] by simp
next
  assume "served 1 s \<and> unclaimed_rows t s = row # rest
            \<and> parse (replace_z (expires_at row)) = Inr (Aware e) \<and> e < nc"
  then show "fst (claim_device st parse fmt nc nm u t s) =
      Inr \<lparr>success = False, result_device_id = None, message = ''Pairing token has expired''\<rparr>"
    using claim_device_expired [OF assms, of s t row rest parse e nc] by simp
next
  assume "served 2 s \<and> unclaimed_rows t s = row # rest
            \<and> parse (replace_z (expires_at row)) = Inr (Aware e) \<and> nc \<le> e
            \<and> devices s (device_id row) = Some dev \<and> user_id dev \<noteq> Some u"
  then show "fst (claim_device st parse fmt nc nm u t s) =
      Inr \<lparr>success = False, result_device_id = None,
            message = ''Device is already claimed by another user''\<rparr>"
    using claim_device_conflict [OF assms, of s t row rest parse e nc dev u] by simp
next
  fix r s'
  assume a: "claim_device st parse fmt nc nm u t s = (Inr r, s')
            \<and> (message r = ''Invalid or expired pairing token''
                 \<or> message r = ''Pairing token has expired''
                 \<or> message r = ''Device is already claimed by another user'')"
  then show "same_tables s s'"
    using claim_device_rejected_frame [of st parse fmt nc nm u t s r s'] by blast
  show "\<not> success r"
    using a claim_device_rejected_fails [of st parse fmt nc nm u t s r s'] by blast
qed

theorem claim_device_first_failing_check_wins_witness:
  "fst (claim_device demo_settings demo_fromisoformat demo_isoformat 3600000000 3600000000
          ''u2'' ''tok-1'' store_claimed) =
     Inr \<lparr>success = False, result_device_id = None, message = ''Invalid or expired pairing token''\<rparr>
   \<and> fst (claim_device demo_settings demo_fromisoformat demo_isoformat 3600000000 3600000000
          ''u2'' ''tok-1'' (store_owned ''u1'')) =
     Inr \<lparr>success = False, result_device_id = None, message = ''Pairing token has expired''\<rparr>
   \<and> fst (claim_device demo_settings demo_fromisoformat demo_isoformat 60000000 60000000
          ''u2'' ''tok-1'' (store_owned ''u1'')) =
     Inr \<lparr>success = False, result_device_id = None,
           message = ''Device is already claimed by another user''\<rparr>
   \<and> same_tables (store_owned ''u1'')
        (snd (claim_device demo_settings demo_fromisoformat demo_isoformat 60000000 60000000
          ''u2'' ''tok-1'' (store_owned ''u1'')))"
proof -
  let ?late = "claim_device demo_settings demo_fromisoformat demo_isoformat 3600000000 3600000000"
  let ?early = "claim_device demo_settings demo_fromisoformat demo_isoformat 60000000 60000000"
  have claimed: "fst (?late ''u2'' ''tok-1'' store_claimed) =
      Inr \<lparr>success = False, result_device_id = None, message = ''Invalid or expired pairing token''\<rparr>"
    using claim_device_first_failing_check_wins [OF demo_client, where s = store_claimed
        and t = "''tok-1''" and parse = demo_fromisoformat and fmt = demo_isoformat
        and nc = 3600000000 and nm = 3600000000 and u = "''u2''"]
    by (simp add: demo_served demo_rows)
  have expired: "fst (?late ''u2'' ''tok-1'' (store_owned ''u1'')) =
      Inr \<lparr>success = False, result_device_id = None, message = ''Pairing token has expired''\<rparr>"
    using claim_device_first_failing_check_wins [OF demo_client, where s = "store_owned ''u1''"
        and t = "''tok-1''" and parse = demo_fromisoformat and fmt = demo_isoformat
        and nc = 3600000000 and nm = 3600000000 and u = "''u2''" and row = pending_row
        and rest = "[]" and e = 1800000000]
    by (simp add: demo_served demo_rows demo_parse)
  have all: "(served 2 (store_owned ''u1'') \<and> unclaimed_rows ''tok-1'' (store_owned ''u1'') = [pending_row]
        \<and> demo_fromisoformat (replace_z (expires_at pending_row)) = Inr (Aware 1800000000)
        \<and> (60000000::int) \<le> 1800000000
        \<and> devices (store_owned ''u1'') (device_id pending_row) =
             Some \<lparr>user_id = Some ''u1'', name = ''Kitchen'', api_key = Some ''key-1''\<rparr>
        \<and> user_id \<lparr>user_id = Some ''u1'', name = ''Kitchen'', api_key = Some ''key-1''\<rparr> \<noteq> Some ''u2''
        \<longrightarrow> fst (?early ''u2'' ''tok-1'' (store_owned ''u1'')) =
              Inr \<lparr>success = False, result_device_id = None,
                    message = ''Device is already claimed by another user''\<rparr>)
     \<and> (\<forall>r s'. ?early ''u2'' ''tok-1'' (store_owned ''u1'') = (Inr r, s')
            \<and> (message r = ''Invalid or expired pairing token''
                 \<or> message r = ''Pairing token has expired''
                 \<or> message r = ''Device is already claimed by another user'')
            \<longrightarrow> \<not> success r \<and> same_tables (store_owned ''u1'') s')"
    using claim_device_first_failing_check_wins [OF demo_client, where s = "store_owned ''u1''"
        and t = "''tok-1''" and parse = demo_fromisoformat and fmt = demo_isoformat
        and nc = 60000000 and nm = 60000000 and u = "''u2''" and row = pending_row
        and rest = "[]" and e = 1800000000
        and dev = "\<lparr>user_id = Some ''u1'', name = ''Kitchen'', api_key = Some ''key-1''\<rparr>"]
    by blast
  have conflict: "fst (?early ''u2'' ''tok-1'' (store_owned ''u1'')) =
      Inr \<lparr>success = False, result_device_id = None,
            message = ''Device is already claimed by another user''\<rparr>"
    using all by (simp add: demo_served demo_rows demo_parse demo_devices)
  then have "?early ''u2'' ''tok-1'' (store_owned ''u1'') =
      (Inr \<lparr>success = False, result_device_id = None,
            message = ''Device is already claimed by another user''\<rparr>,
       snd (?early ''u2'' ''tok-1'' (store_owned ''u1'')))"
    by (metis prod.collapse)
  then have "same_tables (store_owned ''u1'') (snd (?early ''u2'' ''tok-1'' (store_owned ''u1'')))"
    using all by (metis ClaimResult.select_convs(3))
  then show ?thesis
    using claimed expired conflict by simp
qed

section \<open>Unknown and already claimed tokens\<close>

text \<open>
  C8. For every user and token string, the result of \<^verbatim>\<open>claim_device\<close> in a store with
  no record of that token is the result in a store where records of it exist and all
  are claimed: with the same outcomes of the requests the two results are equal, and
  when the client is obtained and the lookup is served both are the rejection
  \<^verbatim>\<open>Invalid or expired pairing token\<close>.
\<close>

theorem claim_device_unknown_and_claimed_alike:
  assumes unknown: "list_all (\<lambda>r. token r \<noteq> t) (device_pairing_tokens s1)"
    and present: "r2 \<in> set (device_pairing_tokens s2)" "token r2 = t"
    and claimed: "list_all (\<lambda>r. token r = t \<longrightarrow> claimed_by r \<noteq> None) (device_pairing_tokens s2)"
    and same_faults: "faults s1 = faults s2"
  shows "fst (claim_device st parse fmt nc nm u t s1) = fst (claim_device st parse fmt nc nm u t s2)
       \<and> (get_supabase_admin_client st = Inr () \<and> served 1 s1 \<longrightarrow>
            fst (claim_device st parse fmt nc nm u t s1) =
              Inr \<lparr>success = False, result_device_id = None,
                    message = ''Invalid or expired pairing token''\<rparr>)"
proof -
  have e1: "unclaimed_rows t s1 = []"
    using unknown by (rule unclaimed_rows_unknown)
  have e2: "unclaimed_rows t s2 = []"
    using claimed by (rule unclaimed_rows_claimed)
  have nf: "next_fault s1 = next_fault s2"
    using same_faults by (simp add: next_fault_def)
  have "fst (claim_device st parse fmt nc nm u t s1) = fst (claim_device st parse fmt nc nm u t s2)"
    unfolding claim_device_fst_not_found [OF e1] claim_device_fst_not_found [OF e2] nf ..
  moreover have "fst (claim_device st parse fmt nc nm u t s1) =
      Inr \<lparr>success = False, result_device_id = None, message = ''Invalid or expired pairing token''\<rparr>"
    if "get_supabase_admin_client st = Inr ()" and "served 1 s1"
    using that e1 by (simp add: claim_device_not_found)
  ultimately show ?thesis by blast
qed

theorem claim_device_unknown_and_claimed_alike_witness:
  "fst (claim_device demo_settings demo_fromisoformat demo_isoformat 60000000 60000000
          ''u2'' ''tok-1'' store_empty) =
   fst (claim_device demo_settings demo_fromisoformat demo_isoformat 60000000 60000000
          ''u2'' ''tok-1'' store_claimed)
   \<and> fst (claim_device demo_settings demo_fromisoformat demo_isoformat 60000000 60000000
          ''u2'' ''tok-1'' store_empty) =
     Inr \<lparr>success = False, result_device_id = None, message = ''Invalid or expired pairing token''\<rparr>"
proof -
  let ?row = "pending_row\<lparr>claimed_by := Some ''u1'',
                          claimed_at := Some ''1970-01-01T00:01:00+00:00''\<rparr>"
  have unknown: "list_all (\<lambda>r. token r \<noteq> ''tok-1'') (device_pairing_tokens store_empty)"
    by (simp add: store_empty_def)
  have present: "?row \<in> set (device_pairing_tokens store_claimed)" "token ?row = ''tok-1''"
    by (simp_all add: store_claimed_def pending_row_def)
  have claimed: "list_all (\<lambda>r. token r = ''tok-1'' \<longrightarrow> claimed_by r \<noteq> None)
      (device_pairing_tokens store_claimed)"
    by (simp add: store_claimed_def)
  have same_faults: "faults store_empty = faults store_claimed"
    by (simp add: store_empty_def store_claimed_def)
  have served: "served 1 store_empty"
    by (simp add: store_empty_def served_def)
  show ?thesis
    using claim_device_unknown_and_claimed_alike [OF unknown present claimed same_faults,
        where st = demo_settings and parse = demo_fromisoformat and fmt = demo_isoformat
        and nc = 60000000 and nm = 60000000 and u = "''u2''"]
      demo_client served
    by blast
qed

section \<open>Failures are values\<close>

text \<open>
  C9. \<^verbatim>\<open>claim_device\<close> does not raise for a business failure or for a failure of the
  store: once the client is obtained it returns a result, which is one of the three
  rejections, the success, or a failure whose message is \<^verbatim>\<open>Failed to claim device: \<close>
  followed by the text of the exception raised inside the \<^verbatim>\<open>try\<close> block (the text only,
  not the class). A request that raises gives that failure: the first request always,
  and each of the four requests of a claim that would go through.
\<close>

theorem claim_device_failure_is_a_value:
  assumes "get_supabase_admin_client st = Inr ()"
  shows "(\<exists>r. fst (claim_device st parse fmt nc nm u t s) = Inr r
           \<and> (r = \<lparr>success = False, result_device_id = None,
                     message = ''Invalid or expired pairing token''\<rparr>
              \<or> r = \<lparr>success = False, result_device_id = None,
                       message = ''Pairing token has expired''\<rparr>
              \<or> r = \<lparr>success = False, result_device_id = None,
                       message = ''Device is already claimed by another user''\<rparr>
              \<or> (\<exists>d. r = \<lparr>success = True, result_device_id = Some d,
                            message = ''Device claimed successfully''\<rparr>)
              \<or> (\<exists>e. fst (claim_device_try parse fmt nc nm u t s) = Inl e
                       \<and> r = \<lparr>success = False, result_device_id = None,
                                message = ''Failed to claim device: '' @ exn_text e\<rparr>)))
       \<and> (\<forall>e. next_fault s = Some e \<longrightarrow>
             fst (claim_device st parse fmt nc nm u t s) =
               Inr \<lparr>success = False, result_device_id = None,
                     message = ''Failed to claim device: '' @ exn_text e\<rparr>)
       \<and> (\<forall>k e row rest x.
             k < 4 \<and> served k s \<and> next_fault ((pop ^^ k) s) = Some e
             \<and> unclaimed_rows t s = row # rest
             \<and> parse (replace_z (expires_at row)) = Inr (Aware x) \<and> nc \<le> x
             \<and> (devices s (device_id row) = None
                  \<or> map_option user_id (devices s (device_id row)) = Some (Some u)) \<longrightarrow>
             fst (claim_device st parse fmt nc nm u t s) =
               Inr \<lparr>success = False, result_device_id = None,
                     message = ''Failed to claim device: '' @ exn_text e\<rparr>)"
proof (intro conjI allI impI)
  show "\<exists>r. fst (claim_device st parse fmt nc nm u t s) = Inr r
           \<and> (r = \<lparr>success = False, result_device_id = None,
                     message = ''Invalid or expired pairing token''\<rparr>
              \<or> r = \<lparr>success = False, result_device_id = None,
                       message = ''Pairing token has expired''\<rparr>
              \<or> r = \<lparr>success = False, result_device_id = None,
                       message = ''Device is already claimed by another user''\<rparr>
              \<or> (\<exists>d. r = \<lparr>success = True, result_device_id = Some d,
                            message = ''Device claimed successfully''\<rparr>)
              \<or> (\<exists>e. fst (claim_device_try parse fmt nc nm u t s) = Inl e
                       \<and> r = \<lparr>success = False, result_device_id = None,
                                message = ''Failed to claim device: '' @ exn_text e\<rparr>))"
    using assms by (rule claim_device_returns)
next
  fix e
  assume "next_fault s = Some e"
  then show "fst (claim_device st parse fmt nc nm u t s) =
      Inr \<lparr>success = False, result_device_id = None,
            message = ''Failed to claim device: '' @ exn_text e\<rparr>"
    using assms by (simp add: claim_defs execute_raises)
next
  fix k e row rest x
  assume "k < 4 \<and> served k s \<and> next_fault ((pop ^^ k) s) = Some e
             \<and> unclaimed_rows t s = row # rest
             \<and> parse (replace_z (expires_at row)) = Inr (Aware x) \<and> nc \<le> x
             \<and> (devices s (device_id row) = None
                  \<or> map_option user_id (devices s (device_id row)) = Some (Some u))"
  then show "fst (claim_device st parse fmt nc nm u t s) =
      Inr \<lparr>success = False, result_device_id = None,
            message = ''Failed to claim device: '' @ exn_text e\<rparr>"
    using claim_device_request_raises [OF assms, of k s e t row rest parse x nc u] by blast
qed

theorem claim_device_failure_is_a_value_witness:
  "fst (claim_device demo_settings demo_fromisoformat demo_isoformat 60000000 60000000
          ''u1'' ''tok-1'' store_unreachable) =
     Inr \<lparr>success = False, result_device_id = None,
           message = ''Failed to claim device: connection refused''\<rparr>"
proof -
  have "next_fault store_unreachable = Some (Exn ''ConnectError'' ''connection refused'')"
    by (simp add: next_fault_def store_unreachable_def)
  then show ?thesis
    using claim_device_failure_is_a_value [OF demo_client, where s = store_unreachable
        and parse = demo_fromisoformat and fmt = demo_isoformat and nc = 60000000
        and nm = 60000000 and u = "''u1''" and t = "''tok-1''"]
    by simp
qed

section \<open>A claim that goes through\<close>




section \<open>Claiming one's own device again\<close>

text \<open>
  The claim C3 says that a re-claim by the owner leaves the device record as it was, its
  name included. The upsert writes the default name again: a device its owner renamed
  to \<^verbatim>\<open>Kitchen\<close> is \<^verbatim>\<open>Tronbyt-a1b2\<close> after the re-claim.
\<close>

theorem reclaim_resets_name_counterexample:
  "map_option user_id (devices (store_owned ''u1'') ''a1b2c3d4'') = Some (Some ''u1'')
   \<and> map_option name (devices (store_owned ''u1'') ''a1b2c3d4'') = Some ''Kitchen''
   \<and> fst (claim_device demo_settings demo_fromisoformat demo_isoformat 60000000 60000000
          ''u1'' ''tok-1'' (store_owned ''u1'')) =
       Inr \<lparr>success = True, result_device_id = Some ''a1b2c3d4'',
             message = ''Device claimed successfully''\<rparr>
   \<and> map_option name (devices (snd (claim_device demo_settings demo_fromisoformat
          demo_isoformat 60000000 60000000 ''u1'' ''tok-1'' (store_owned ''u1''))) ''a1b2c3d4'')
       = Some ''Tronbyt-a1b2''
   \<and> ''Tronbyt-a1b2'' \<noteq> ''Kitchen''"
  by (simp add: claim_defs demo_defs execute_def next_fault_def pop_def)

text \<open>
  C3, amended. For a user who owns the device already, \<^verbatim>\<open>claim_device\<close> with a fresh
  valid token succeeds and leaves the device record as it was except for the name, which
  becomes \<^verbatim>\<open>Tronbyt-\<close> followed by the first four characters of the device id: the owner
  and the API key stay, no other device changes, and a device that has the default name
  is unchanged.
\<close>

theorem reclaim_keeps_owner_resets_name:
  assumes "get_supabase_admin_client st = Inr ()" and "served 4 s"
    and "unclaimed_rows t s = row # rest"
    and "parse (replace_z (expires_at row)) = Inr (Aware e)" and "nc \<le> e"
    and "devices s (device_id row) = Some dev" and "user_id dev = Some u"
  shows "fst (claim_device st parse fmt nc nm u t s) =
           Inr \<lparr>success = True, result_device_id = Some (device_id row),
                 message = ''Device claimed successfully''\<rparr>
       \<and> devices (snd (claim_device st parse fmt nc nm u t s)) =
           (devices s)(device_id row \<mapsto> dev\<lparr>name := ''Tronbyt-'' @ take 4 (device_id row)\<rparr>)
       \<and> (name dev = ''Tronbyt-'' @ take 4 (device_id row) \<longrightarrow>
            devices (snd (claim_device st parse fmt nc nm u t s)) = devices s)"
proof -
  have owned: "devices s (device_id row) = None
      \<or> (\<exists>dev. devices s (device_id row) = Some dev \<and> user_id dev = Some u)"
    using assms(6,7) by simp
  have same_owner: "dev\<lparr>user_id := Some u, name := n\<rparr> = dev\<lparr>name := n\<rparr>" for n
    using assms(7) by simp
  have unchanged: "dev\<lparr>name := name dev\<rparr> = dev"
    by simp
  have upd: "devices (snd (claim_device st parse fmt nc nm u t s)) =
      (devices s)(device_id row \<mapsto> dev\<lparr>name := ''Tronbyt-'' @ take 4 (device_id row)\<rparr>)"
    unfolding claim_device_succeeds [where parse = parse and fmt = fmt and nm = nm,
        OF assms(1-5) owned]
    using assms(6) same_owner by simp
  have "devices (snd (claim_device st parse fmt nc nm u t s)) = devices s"
    if "name dev = ''Tronbyt-'' @ take 4 (device_id row)"
  proof -
    have "dev\<lparr>name := ''Tronbyt-'' @ take 4 (device_id row)\<rparr> = dev"
      using that unchanged by metis
    then show ?thesis
      using upd assms(6) by (simp add: fun_upd_idem)
  qed
  moreover have "fst (claim_device st parse fmt nc nm u t s) =
           Inr \<lparr>success = True, result_device_id = Some (device_id row),
                 message = ''Device claimed successfully''\<rparr>"
    unfolding claim_device_succeeds [where parse = parse and fmt = fmt and nm = nm,
        OF assms(1-5) owned]
    by simp
  ultimately show ?thesis
    using upd by blast
qed

theorem reclaim_keeps_owner_resets_name_witness:
  "fst (claim_device demo_settings demo_fromisoformat demo_isoformat 60000000 60000000
          ''u1'' ''tok-1'' (store_owned ''u1'')) =
     Inr \<lparr>success = True, result_device_id = Some ''a1b2c3d4'',
           message = ''Device claimed successfully''\<rparr>
   \<and> devices (snd (claim_device demo_settings demo_fromisoformat demo_isoformat 60000000
          60000000 ''u1'' ''tok-1'' (store_owned ''u1''))) ''a1b2c3d4'' =
       Some \<lparr>user_id = Some ''u1'', name = ''Tronbyt-a1b2'', api_key = Some ''key-1''\<rparr>"
proof -
  have early: "(60000000::int) \<le> 1800000000" by simp
  have owner: "user_id \<lparr>user_id = Some ''u1'', name = ''Kitchen'', api_key = Some ''key-1''\<rparr>
      = Some ''u1''"
    by simp
  have id: "device_id pending_row = ''a1b2c3d4''"
    by (simp add: pending_row_def)
  show ?thesis
    using reclaim_keeps_owner_resets_name [where st = demo_settings and s = "store_owned ''u1''"
        and t = "''tok-1''" and row = pending_row and rest = "[]" and parse = demo_fromisoformat
        and fmt = demo_isoformat and e = 1800000000 and nc = 60000000 and nm = 60000000
        and u = "''u1''"
        and dev = "\<lparr>user_id = Some ''u1'', name = ''Kitchen'', api_key = Some ''key-1''\<rparr>",
        OF demo_client demo_served(2) demo_rows(2) demo_parse early demo_devices(2) owner]
    by (simp add: id)
qed

section \<open>Exclusive ownership\<close>

text \<open>
  The claim C1 says that a claim by another user for an owned device fails with the
  ownership message whatever the validity of the token is. The lookup and the expiry
  are checked first: with an expired token for the device of \<^verbatim>\<open>uA\<close>, the claim of
  \<^verbatim>\<open>uB\<close> fails with the expiry message.
\<close>

theorem other_owner_expired_token_counterexample:
  "map_option user_id (devices (store_owned ''uA'') ''a1b2c3d4'') = Some (Some ''uA'')
   \<and> ''uA'' \<noteq> ''uB''
   \<and> device_pairing_tokens (store_owned ''uA'') = [pending_row]
   \<and> token pending_row = ''tok-1'' \<and> device_id pending_row = ''a1b2c3d4''
   \<and> claimed_by pending_row = None
   \<and> fst (claim_device demo_settings demo_fromisoformat demo_isoformat 3600000000 3600000000
          ''uB'' ''tok-1'' (store_owned ''uA'')) =
       Inr \<lparr>success = False, result_device_id = None, message = ''Pairing token has expired''\<rparr>
   \<and> ''Pairing token has expired'' \<noteq> ''Device is already claimed by another user''"
  by (simp add: claim_defs demo_defs execute_def next_fault_def pop_def)

text \<open>
  C1, amended. For every device \<open>d\<close> owned by \<open>a\<close> and every other user \<open>b\<close>: a claim by
  \<open>b\<close> with a token for \<open>d\<close> that is found unclaimed and unexpired fails with
  \<^verbatim>\<open>Device is already claimed by another user\<close> and writes nothing; with any token at all
  a claim by \<open>b\<close> never succeeds for \<open>d\<close>; and no operation of the claim flow, a claim by
  anyone or the issue of a token, changes the \<^verbatim>\<open>user_id\<close> of \<open>d\<close>.
\<close>

theorem claim_device_exclusive_ownership:
  assumes "devices s d = Some dev" and "user_id dev = Some a" and "a \<noteq> b"
  shows "(get_supabase_admin_client st = Inr () \<and> served 2 s
            \<and> unclaimed_rows t s = row # rest \<and> device_id row = d
            \<and> parse (replace_z (expires_at row)) = Inr (Aware e) \<and> nc \<le> e \<longrightarrow>
            fst (claim_device st parse fmt nc nm b t s) =
              Inr \<lparr>success = False, result_device_id = None,
                    message = ''Device is already claimed by another user''\<rparr>
            \<and> same_tables s (snd (claim_device st parse fmt nc nm b t s)))
       \<and> (\<forall>r. fst (claim_device st parse fmt nc nm b t s) = Inr r \<longrightarrow>
             \<not> (success r \<and> result_device_id r = Some d))
       \<and> (\<exists>dev'. devices (snd (claim_device st parse fmt nc nm v t s)) d = Some dev'
             \<and> user_id dev' = Some a)
       \<and> devices (snd (generate_pairing_token st fmt now new_token d' s)) = devices s"
proof (intro conjI impI allI)
  assume h: "get_supabase_admin_client st = Inr () \<and> served 2 s
            \<and> unclaimed_rows t s = row # rest \<and> device_id row = d
            \<and> parse (replace_z (expires_at row)) = Inr (Aware e) \<and> nc \<le> e"
  have other: "user_id dev \<noteq> Some b"
    using assms(2,3) by simp
  have "claim_device st parse fmt nc nm b t s =
      (Inr \<lparr>success = False, result_device_id = None,
            message = ''Device is already claimed by another user''\<rparr>, pop (pop s))"
    using h assms(1) other
      claim_device_conflict [where st = st and s = s and t = t and row = row and rest = rest
        and parse = parse and fmt = fmt and e = e and nc = nc and nm = nm and dev = dev and u = b]
    by blast
  then show "fst (claim_device st parse fmt nc nm b t s) =
              Inr \<lparr>success = False, result_device_id = None,
                    message = ''Device is already claimed by another user''\<rparr>"
    and "same_tables s (snd (claim_device st parse fmt nc nm b t s))"
    by (simp_all add: same_tables_def)
next
  fix r
  assume r: "fst (claim_device st parse fmt nc nm b t s) = Inr r"
  show "\<not> (success r \<and> result_device_id r = Some d)"
  proof
    assume "success r \<and> result_device_id r = Some d"
    then have "devices s d = None \<or> map_option user_id (devices s d) = Some (Some b)"
      using claim_device_success_owner [OF r] by blast
    then show False
      using assms by simp
  qed
next
  show "\<exists>dev'. devices (snd (claim_device st parse fmt nc nm v t s)) d = Some dev'
             \<and> user_id dev' = Some a"
    using claim_device_owner_kept [OF assms(1), of st parse fmt nc nm v t] assms(2) by simp
next
  show "devices (snd (generate_pairing_token st fmt now new_token d' s)) = devices s"
    by (rule generate_pairing_token_devices)
qed

theorem claim_device_exclusive_ownership_witness:
  "fst (claim_device demo_settings demo_fromisoformat demo_isoformat 60000000 60000000
          ''uB'' ''tok-1'' (store_owned ''uA'')) =
     Inr \<lparr>success = False, result_device_id = None,
           message = ''Device is already claimed by another user''\<rparr>
   \<and> same_tables (store_owned ''uA'')
        (snd (claim_device demo_settings demo_fromisoformat demo_isoformat 60000000 60000000
          ''uB'' ''tok-1'' (store_owned ''uA'')))"
proof -
  have owned: "devices (store_owned ''uA'') ''a1b2c3d4'' =
      Some \<lparr>user_id = Some ''uA'', name = ''Kitchen'', api_key = Some ''key-1''\<rparr>"
    by (simp add: store_owned_def)
  have owner: "user_id \<lparr>user_id = Some ''uA'', name = ''Kitchen'', api_key = Some ''key-1''\<rparr>
      = Some ''uA''"
    by simp
  have other: "''uA'' \<noteq> ''uB''"
    by simp
  have id: "device_id pending_row = ''a1b2c3d4''"
    by (simp add: pending_row_def)
  have valid: "get_supabase_admin_client demo_settings = Inr () \<and> served 2 (store_owned ''uA'')
      \<and> unclaimed_rows ''tok-1'' (store_owned ''uA'') = pending_row # []
      \<and> device_id pending_row = ''a1b2c3d4''
      \<and> demo_fromisoformat (replace_z (expires_at pending_row)) = Inr (Aware 1800000000)
      \<and> (60000000::int) \<le> 1800000000"
    by (simp add: demo_client demo_served demo_rows demo_parse id)
  show ?thesis
    using claim_device_exclusive_ownership [OF owned owner other, where st = demo_settings
        and t = "''tok-1''" and row = pending_row and rest = "[]" and parse = demo_fromisoformat
        and fmt = demo_isoformat and e = 1800000000 and nc = 60000000 and nm = 60000000]
      valid
    by blast
qed

section \<open>One outstanding token per device\<close>

text \<open>
  C5. After every successful \<^verbatim>\<open>generate_pairing_token(d)\<close> exactly one pairing-token
  record exists for \<open>d\<close>: the records of \<open>d\<close> are deleted, then the new one is inserted
  (30 minutes of validity, unclaimed). A later claim with an old token of \<open>d\<close> fails with
  \<^verbatim>\<open>Invalid or expired pairing token\<close>. The old token is another string than the new one
  and is held by no other device's record (tokens are 32 random bytes); the lookup
  request of the claim is served.
\<close>

theorem generate_pairing_token_single_outstanding:
  assumes "fst (generate_pairing_token st fmt now new_token d s) = Inr pt"
  shows "device_pairing_tokens (snd (generate_pairing_token st fmt now new_token d s)) =
           filter (\<lambda>r. device_id r \<noteq> d) (device_pairing_tokens s) @
           [\<lparr>device_id = d, token = new_token, expires_at = fmt (now + 1800000000),
             claimed_by = None, claimed_at = None\<rparr>]
       \<and> filter (\<lambda>r. device_id r = d)
             (device_pairing_tokens (snd (generate_pairing_token st fmt now new_token d s))) =
           [\<lparr>device_id = d, token = new_token, expires_at = fmt (now + 1800000000),
             claimed_by = None, claimed_at = None\<rparr>]
       \<and> pt = \<lparr>pt_device_id = d, pt_token = new_token, pt_expires_at = now + 1800000000\<rparr>
       \<and> (old \<noteq> new_token
            \<and> list_all (\<lambda>r. token r = old \<longrightarrow> device_id r = d) (device_pairing_tokens s)
            \<and> served 1 (snd (generate_pairing_token st fmt now new_token d s)) \<longrightarrow>
            fst (claim_device st parse fmt nc nm u old
                   (snd (generate_pairing_token st fmt now new_token d s))) =
              Inr \<lparr>success = False, result_device_id = None,
                    message = ''Invalid or expired pairing token''\<rparr>)"
proof -
  let ?s' = "snd (generate_pairing_token st fmt now new_token d s)"
  let ?new = "\<lparr>device_id = d, token = new_token, expires_at = fmt (now + 1800000000),
             claimed_by = None, claimed_at = None\<rparr>"
  have minutes: "timedelta_minutes PAIRING_TOKEN_VALIDITY_MINUTES = 1800000000"
    by (simp add: timedelta_minutes_def PAIRING_TOKEN_VALIDITY_MINUTES_def)
  have client: "get_supabase_admin_client st = Inr ()"
    using assms by (rule generate_pairing_token_success(2))
  have rows: "device_pairing_tokens ?s' =
      filter (\<lambda>r. device_id r \<noteq> d) (device_pairing_tokens s) @ [?new]"
    using generate_pairing_token_success(4) [OF assms] minutes by simp
  have one: "filter (\<lambda>r. device_id r = d) (device_pairing_tokens ?s') = [?new]"
    unfolding rows by (simp add: filter_empty_conv)
  have pt: "pt = \<lparr>pt_device_id = d, pt_token = new_token, pt_expires_at = now + 1800000000\<rparr>"
    using generate_pairing_token_success(3) [OF assms] minutes by simp
  have "fst (claim_device st parse fmt nc nm u old ?s') =
      Inr \<lparr>success = False, result_device_id = None, message = ''Invalid or expired pairing token''\<rparr>"
    if old: "old \<noteq> new_token"
      and only: "list_all (\<lambda>r. token r = old \<longrightarrow> device_id r = d) (device_pairing_tokens s)"
      and served: "served 1 ?s'"
  proof -
    have "list_all (\<lambda>r. token r \<noteq> old) (device_pairing_tokens ?s')"
      unfolding rows using old only by (auto simp: list_all_iff)
    then have "unclaimed_rows old ?s' = []"
      by (rule unclaimed_rows_unknown)
    then show ?thesis
      using client served by (simp add: claim_device_not_found)
  qed
  then show ?thesis
    using rows one pt by blast
qed

theorem generate_pairing_token_single_outstanding_witness:
  "device_pairing_tokens
     (snd (generate_pairing_token demo_settings demo_isoformat 0 ''tok-2'' ''a1b2c3d4'' store_pending)) =
     [\<lparr>device_id = ''a1b2c3d4'', token = ''tok-2'', expires_at = ''1970-01-01T00:30:00+00:00'',
       claimed_by = None, claimed_at = None\<rparr>]
   \<and> fst (claim_device demo_settings demo_fromisoformat demo_isoformat 60000000 60000000
          ''u1'' ''tok-1''
          (snd (generate_pairing_token demo_settings demo_isoformat 0 ''tok-2'' ''a1b2c3d4''
                  store_pending))) =
     Inr \<lparr>success = False, result_device_id = None, message = ''Invalid or expired pairing token''\<rparr>"
proof -
  let ?g = "generate_pairing_token demo_settings demo_isoformat 0 ''tok-2'' ''a1b2c3d4'' store_pending"
  have valid: "validate_device_id ''a1b2c3d4''"
    by (rule validate_device_id_hex8) (simp_all add: spec_hex_char_def)
  have issued: "fst ?g =
      Inr \<lparr>pt_device_id = ''a1b2c3d4'', pt_token = ''tok-2'', pt_expires_at = 1800000000\<rparr>"
    using valid
    by (simp add: generate_defs execute_def next_fault_def pop_def demo_client store_pending_def
          timedelta_minutes_def PAIRING_TOKEN_VALIDITY_MINUTES_def)
  have served: "served 1 (snd ?g)"
    using valid
    by (simp add: generate_defs execute_def next_fault_def pop_def demo_client store_pending_def
          served_def)
  have only: "list_all (\<lambda>r. token r = ''tok-1'' \<longrightarrow> device_id r = ''a1b2c3d4'')
      (device_pairing_tokens store_pending)"
    by (simp add: store_pending_def pending_row_def)
  have rows: "filter (\<lambda>r. device_id r \<noteq> ''a1b2c3d4'') (device_pairing_tokens store_pending) = []"
    by (simp add: store_pending_def pending_row_def)
  have fmt: "demo_isoformat 1800000000 = ''1970-01-01T00:30:00+00:00''"
    by (simp add: demo_isoformat_def)
  have old: "''tok-1'' \<noteq> ''tok-2''"
    by simp
  show ?thesis
    using generate_pairing_token_single_outstanding [OF issued, where old = "''tok-1''"
        and parse = demo_fromisoformat and nc = 60000000 and nm = 60000000 and u = "''u1''"]
      served only old
    by (simp add: rows fmt)
qed

section \<open>A token is used once\<close>

text \<open>
  One claim after the other: once a claim has gone through, every later claim with the
  same token, by whichever user, is rejected by the lookup. The update that marks the
  token carries no condition on \<^verbatim>\<open>claimed_by\<close>, so this is a property of claims that
  run in sequence; how the requests of two claims running at once interleave is decided
  by the deployment and the store, outside this function.
\<close>

lemma marked_rows_claimed:
  "list_all (\<lambda>r. token r = t \<longrightarrow> claimed_by r \<noteq> None)
     (map (\<lambda>r. if token r = t then r\<lparr>claimed_by := Some u, claimed_at := Some a\<rparr> else r) xs)"
  by (induction xs) simp_all

lemma claim_device_token_single_use:
  assumes "get_supabase_admin_client st = Inr ()" and "served 4 s"
    and "unclaimed_rows t s = row # rest"
    and "parse (replace_z (expires_at row)) = Inr (Aware e)" and "nc \<le> e"
    and "devices s (device_id row) = None
         \<or> (\<exists>dev. devices s (device_id row) = Some dev \<and> user_id dev = Some u)"
    and "served 1 (snd (claim_device st parse fmt nc nm u t s))"
  shows "fst (claim_device st parse' fmt' nc' nm' u' t (snd (claim_device st parse fmt nc nm u t s))) =
           Inr \<lparr>success = False, result_device_id = None,
                 message = ''Invalid or expired pairing token''\<rparr>"
proof -
  let ?s' = "snd (claim_device st parse fmt nc nm u t s)"
  have rows: "device_pairing_tokens ?s' =
      map (\<lambda>r. if token r = t
               then r\<lparr>claimed_by := Some u, claimed_at := Some (fmt nm)\<rparr> else r)
        (device_pairing_tokens s)"
    unfolding claim_device_succeeds [where parse = parse and fmt = fmt and nm = nm, OF assms(1-6)]
    by simp
  have "list_all (\<lambda>r. token r = t \<longrightarrow> claimed_by r \<noteq> None) (device_pairing_tokens ?s')"
    unfolding rows by (rule marked_rows_claimed)
  then have "unclaimed_rows t ?s' = []"
    by (rule unclaimed_rows_claimed)
  then have "claim_device st parse' fmt' nc' nm' u' t ?s' =
      (Inr \<lparr>success = False, result_device_id = None,
            message = ''Invalid or expired pairing token''\<rparr>, pop ?s')"
    using assms(1) assms(7) by (intro claim_device_not_found)
  then show ?thesis
    by (simp only: fst_conv)
qed

end
